theory Spec2Isabelle
  imports Complex_Main
begin

section \<open>Data model\<close>

text \<open>
  The server keeps two MongoDB collections that matter here: auctions (models/Auction.js)
  and bids (models/Bid.js). Object ids are opaque; they are modelled as natural numbers.
  Monetary amounts are JavaScript numbers; they are modelled as rationals, which have the
  same order and the same equality tests as the finite numbers a JSON body can carry.
  Instants are milliseconds since the epoch, as \<open>Date.getTime()\<close> returns them. A
  JavaScript \<open>Date\<close> is an instant or the Invalid Date, whose time value is NaN.
\<close>

type_synonym oid = nat
type_synonym instant = int
type_synonym jsdate = "instant option"

text \<open>
  The identity that the controllers read from \<open>req.user.id\<close> is a JavaScript value:
  the id's string form, or an ObjectId object. The controllers compare it with
  \<open>seller.toString() === userId\<close>, which is strict equality between a string and
  that value and therefore true only for the string form; \<open>ObjectId.equals\<close> and
  the casts of the storage layer accept both forms.
\<close>

datatype js_id = IdString oid | IdObject oid

fun id_of :: "js_id \<Rightarrow> oid" where
  "id_of (IdString i) = i"
| "id_of (IdObject i) = i"

text \<open>\<open>seller.toString() === userId\<close>\<close>

definition sellerIs :: "oid \<Rightarrow> js_id \<Rightarrow> bool" where
  "sellerIs s userId = (userId = IdString s)"

datatype status_value = InvalidDates | Upcoming | Active | EndingSoon | Ended

text \<open>Schema option \<open>timestamps: true\<close> of both schemas adds these two fields.\<close>

record timestamps =
  createdAt :: instant
  updatedAt :: instant

record auction = timestamps +
  title :: string
  description :: string
  imageUrl :: "string option"
  images :: "string list"
  startingBid :: rat
  currentBid :: rat
  highestBidder :: "oid option"
  bidCount :: nat
  views :: nat
  likedBy :: "oid list"
  seller :: oid
  startTime :: jsdate
  endTime :: jsdate
  documents :: "(string \<times> string \<times> string) list"
  category :: "string option"
  location :: "string option"

record bid = timestamps +
  auction :: oid
  bidder :: oid
  amount :: rat

record db =
  auctions :: "oid \<rightharpoonup> auction"
  bids :: "bid list"

section \<open>Derived status (the virtual \<open>status\<close> of models/Auction.js)\<close>

definition oneHour :: int where
  "oneHour = 60 * 60 * 1000"

fun status :: "instant \<Rightarrow> jsdate \<Rightarrow> jsdate \<Rightarrow> status_value" where
  "status now (Some s) (Some e) =
     (if now < s then Upcoming
      else if now \<ge> s \<and> now < e then (if e - now < oneHour then EndingSoon else Active)
      else Ended)"
| "status now _ _ = InvalidDates"

definition auction_status :: "instant \<Rightarrow> auction \<Rightarrow> status_value" where
  "auction_status now a = status now (startTime a) (endTime a)"

section \<open>Replies\<close>

text \<open>
  A rejected request is answered with an HTTP status code and a message; the messages are
  modelled by one constructor each, carrying the values the message or the response body
  discloses. A handler can also end without any response: when an exception leaves it,
  nothing is sent to the client.
\<close>

datatype reason =
    InvalidIdFormat
  | InvalidBidAmount
  | AuctionNotFound
  | SellersCannotBid
  | AuctionNotActive status_value
  | BidNotHigher rat
  | FirstBidBelowStarting rat
  | ServerError
  | MissingRequiredFields
  | EndNotAfterStart
  | EndNotInFuture
  | ValidationError
  | NotAuthorizedToUpdate
  | CannotUpdateEnded
  | CannotChangeStartingBid
  | NotAuthorizedToDelete
  | CannotDeleteWithBids
  | NoTokenProvided
  | TokenFailed
  | UserNoLongerExists
  | UserBanned

datatype rejection = Rejection nat reason | Unanswered

section \<open>Placing a bid (controllers/bidController.js, \<open>placeBid\<close>)\<close>

text \<open>\<open>req.body.amount\<close>: a JSON number or any other JSON value.\<close>

datatype jsvalue = JsNumber rat | JsOther

text \<open>
  \<open>auctionId\<close> is \<open>req.params.auctionId\<close>: \<open>None\<close> when
  \<open>mongoose.Types.ObjectId.isValid\<close> refuses it, otherwise the id it denotes.
\<close>

record bid_request =
  auctionId :: "oid option"
  bidderId :: js_id
  body_amount :: jsvalue

record auction_summary =
  summary_id :: oid
  summary_currentBid :: rat
  summary_highestBidder :: "oid option"
  summary_bidCount :: nat

record bid_reply =
  reply_bid :: bid
  reply_auction :: auction_summary

text \<open>
  The storage calls of the write phase can throw. Which of them does, if any, is an input
  of the model: the update of the auction, the save of the bid, or the commit. When
  \<open>commitTransaction\<close> throws, the code cannot tell what became of the transaction:
  the server has discarded it, or has applied it as a whole. Which of the two is part of
  the input as well.
\<close>

datatype commit_fate = TransactionDiscarded | TransactionApplied

datatype storage_fault = NoFault | UpdateFails | SaveFails | CommitFails commit_fate

fun failedCommit :: "storage_fault \<Rightarrow> commit_fate option" where
  "failedCommit (CommitFails fate) = Some fate"
| "failedCommit _ = None"

text \<open>
  A session holds the state the transaction started from and the state its own writes
  have produced. Committing publishes the latter, aborting keeps the former.
\<close>

record session =
  snapshot :: db
  working :: db

definition startTransaction :: "db \<Rightarrow> session" where
  "startTransaction d = \<lparr>snapshot = d, working = d\<rparr>"

definition abortTransaction :: "session \<Rightarrow> db" where
  "abortTransaction s = snapshot s"

definition commitTransaction :: "session \<Rightarrow> db" where
  "commitTransaction s = working s"

text \<open>
  \<open>Auction.findByIdAndUpdate(auctionId, {$set: {currentBid, highestBidder}, $inc:
  {bidCount: 1}}, {new: true, session})\<close>; the schema's timestamps make the update set
  \<open>updatedAt\<close> as well.
\<close>

definition bidUpdate :: "instant \<Rightarrow> rat \<Rightarrow> js_id \<Rightarrow> auction \<Rightarrow> auction" where
  "bidUpdate now amt who a =
     a\<lparr>currentBid := amt, highestBidder := Some (id_of who),
       bidCount := bidCount a + 1, updatedAt := now\<rparr>"

definition updateAuctionInSession :: "session \<Rightarrow> oid \<Rightarrow> auction \<Rightarrow> session" where
  "updateAuctionInSession s aid a =
     s\<lparr>working := (working s)\<lparr>auctions := (auctions (working s))(aid \<mapsto> a)\<rparr>\<rparr>"

text \<open>\<open>new Bid({auction, bidder, amount})\<close>, stamped when it is saved.\<close>

definition newBid :: "instant \<Rightarrow> oid \<Rightarrow> js_id \<Rightarrow> rat \<Rightarrow> bid" where
  "newBid now aid who amt =
     \<lparr>createdAt = now, updatedAt = now, auction = aid, bidder = id_of who, amount = amt\<rparr>"

text \<open>The Bid schema's validator: \<open>amount\<close> has \<open>min: 0.01\<close>.\<close>

definition bidValid :: "bid \<Rightarrow> bool" where
  "bidValid b = (amount b \<ge> 1 / 100)"

definition saveBidInSession :: "session \<Rightarrow> bid \<Rightarrow> session" where
  "saveBidInSession s b = s\<lparr>working := (working s)\<lparr>bids := bids (working s) @ [b]\<rparr>\<rparr>"

text \<open>
  The store after a commit that threw. The code writes nothing more and rolls nothing
  back, so the store is what the server made of the transaction.
\<close>

fun storeAfterFailedCommit :: "commit_fate \<Rightarrow> session \<Rightarrow> db" where
  "storeAfterFailedCommit TransactionDiscarded s = snapshot s"
| "storeAfterFailedCommit TransactionApplied s = working s"

text \<open>\<open>handleServerError\<close>: status 500.\<close>

definition serverError :: rejection where
  "serverError = Rejection 500 ServerError"

text \<open>
  \<open>placeBid\<close>. Every rejection by a check aborts the transaction before it answers.
  An exception of the update or of the save is caught: the catch block aborts the
  transaction and answers 500. An exception of \<open>commitTransaction\<close> is caught too, but
  the \<open>abortTransaction\<close> of the catch block is refused by the driver once the commit
  has been called; that second exception leaves the handler, so \<open>endSession\<close> and
  \<open>handleServerError\<close> are not reached and no response is sent.
\<close>

definition placeBid ::
  "instant \<Rightarrow> storage_fault \<Rightarrow> db \<Rightarrow> bid_request \<Rightarrow> (rejection + bid_reply) \<times> db" where
  "placeBid now fault d req =
     (case auctionId req of
        None \<Rightarrow> (Inl (Rejection 400 InvalidIdFormat), d)
      | Some aid \<Rightarrow>
     (case body_amount req of
        JsOther \<Rightarrow> (Inl (Rejection 400 InvalidBidAmount), d)
      | JsNumber amt \<Rightarrow>
     if amt \<le> 0 then (Inl (Rejection 400 InvalidBidAmount), d)
     else
       let s = startTransaction d in
       (case auctions (working s) aid of
          None \<Rightarrow> (Inl (Rejection 404 AuctionNotFound), abortTransaction s)
        | Some a \<Rightarrow>
          if sellerIs (seller a) (bidderId req)
          then (Inl (Rejection 403 SellersCannotBid), abortTransaction s)
          else
            let auctionStatus = auction_status now a in
            if auctionStatus \<noteq> Active \<and> auctionStatus \<noteq> EndingSoon
            then (Inl (Rejection 400 (AuctionNotActive auctionStatus)), abortTransaction s)
            else if amt \<le> currentBid a
            then (Inl (Rejection 400 (BidNotHigher (currentBid a))), abortTransaction s)
            else if bidCount a = 0 \<and> amt < startingBid a
            then (Inl (Rejection 400 (FirstBidBelowStarting (startingBid a))),
                  abortTransaction s)
            else if fault = UpdateFails then (Inl serverError, abortTransaction s)
            else
              let updatedAuction = bidUpdate now amt (bidderId req) a;
                  s1 = updateAuctionInSession s aid updatedAuction;
                  b = newBid now aid (bidderId req) amt
              in
              if fault = SaveFails \<or> \<not> bidValid b then (Inl serverError, abortTransaction s1)
              else
                let s2 = saveBidInSession s1 b in
                (case failedCommit fault of
                   Some fate \<Rightarrow> (Inl Unanswered, storeAfterFailedCommit fate s2)
                 | None \<Rightarrow>
                  (Inr \<lparr>reply_bid = b,
                        reply_auction =
                          \<lparr>summary_id = aid,
                           summary_currentBid = currentBid updatedAuction,
                           summary_highestBidder = highestBidder updatedAuction,
                           summary_bidCount = bidCount updatedAuction\<rparr>\<rparr>,
                   commitTransaction s2)))))"

text \<open>A sequence of bid requests, each with the clock and the storage behaviour it meets.\<close>

fun run_bids :: "db \<Rightarrow> (instant \<times> storage_fault \<times> bid_request) list \<Rightarrow> db" where
  "run_bids d [] = d"
| "run_bids d ((now, fault, req) # rest) = run_bids (snd (placeBid now fault d req)) rest"

text \<open>\<open>Bid.find({auction: auctionId})\<close>, in insertion order.\<close>

definition bidsOn :: "db \<Rightarrow> oid \<Rightarrow> bid list" where
  "bidsOn d aid = filter (\<lambda>b. auction b = aid) (bids d)"

section \<open>Auctions (controllers/auctionController.js)\<close>

text \<open>
  \<open>req.user\<close> as the controllers read it: \<open>id\<close> and \<open>isAdmin\<close>. The
  argument \<open>paramId\<close> of the controllers below is \<open>req.params.id\<close>, \<open>None\<close>
  when \<open>mongoose.Types.ObjectId.isValid\<close> refuses it.
\<close>

record user =
  user_id :: js_id
  isAdmin :: bool

text \<open>
  \<open>protect\<close> of middleware/authMiddleware.js, which every route of these controllers
  passes first. The request carries no bearer token, one that fails verification, or a
  verified one naming a user; \<open>users\<close> is the collection of user documents. For a
  user who is found and not banned the middleware builds \<open>req.user\<close> from the
  document and sets \<open>id\<close> to the document's \<open>_id\<close>, which is an ObjectId.
\<close>

datatype credentials = NoToken | BadToken | Token oid

record user_doc =
  doc_isAdmin :: bool
  doc_isBanned :: bool

definition protect :: "(oid \<rightharpoonup> user_doc) \<Rightarrow> credentials \<Rightarrow> rejection + user" where
  "protect users cred =
     (case cred of
        NoToken \<Rightarrow> Inl (Rejection 401 NoTokenProvided)
      | BadToken \<Rightarrow> Inl (Rejection 401 TokenFailed)
      | Token uid \<Rightarrow>
          (case users uid of
             None \<Rightarrow> Inl (Rejection 401 UserNoLongerExists)
           | Some foundUser \<Rightarrow>
               if doc_isBanned foundUser then Inl (Rejection 403 UserBanned)
               else Inr \<lparr>user_id = IdObject uid, isAdmin = doc_isAdmin foundUser\<rparr>))"

text \<open>
  \<open>req.body\<close> of the create and update requests. A field is \<open>None\<close> when the
  key is absent. Text fields and numbers are carried as they are. A time field that is
  present holds the \<open>Date\<close> that \<open>new Date(value)\<close> makes of it, which is the
  Invalid Date for text that does not parse; for \<open>createAuction\<close> an absent time
  field also stands for a falsy one, which that controller treats alike, and for
  \<open>updateAuction\<close> a time field that is present is taken to be truthy.
\<close>

record auction_body =
  body_title :: "string option"
  body_description :: "string option"
  body_startingBid :: "rat option"
  body_currentBid :: "rat option"
  body_endTime :: "jsdate option"
  body_startTime :: "jsdate option"
  body_imageUrl :: "string option"
  body_images :: "string list option"
  body_category :: "string option"
  body_location :: "string option"
  body_documents :: "(string \<times> string \<times> string) list option"

text \<open>The schema's \<open>trim: true\<close> setter, on the ASCII white space.\<close>

definition isSpace :: "char \<Rightarrow> bool" where
  "isSpace c = (c \<in> set [CHR 0x20, CHR 0x09, CHR 0x0A, CHR 0x0B, CHR 0x0C, CHR 0x0D])"

definition trim :: "string \<Rightarrow> string" where
  "trim s = rev (dropWhile isSpace (rev (dropWhile isSpace s)))"

text \<open>JavaScript's \<open>!value\<close> on an optional string: absent or empty.\<close>

definition falsy :: "string option \<Rightarrow> bool" where
  "falsy v = (case v of None \<Rightarrow> True | Some s \<Rightarrow> s = [])"

text \<open>
  Comparison of two \<open>Date\<close> objects with \<open><=\<close>: false as soon as one of them is
  the Invalid Date.
\<close>

definition date_le :: "jsdate \<Rightarrow> jsdate \<Rightarrow> bool" where
  "date_le x y = (case (x, y) of (Some a, Some b) \<Rightarrow> a \<le> b | _ \<Rightarrow> False)"

text \<open>
  The validators of the Auction schema, as \<open>save()\<close> runs them on the document:
  required text, the image rule, the minima of the two prices, dates that are dates with
  the end after the start, and the required parts of every attached document.
\<close>

definition documentValid :: "string \<times> string \<times> string \<Rightarrow> bool" where
  "documentValid doc = (case doc of (n, u, t) \<Rightarrow> n \<noteq> [] \<and> u \<noteq> [] \<and> t \<noteq> [])"

definition auctionValid :: "auction \<Rightarrow> bool" where
  "auctionValid a =
     (title a \<noteq> [] \<and> description a \<noteq> [] \<and>
      (images a \<noteq> [] \<or> \<not> falsy (imageUrl a)) \<and>
      startingBid a \<ge> 0 \<and> currentBid a \<ge> 0 \<and>
      (case (startTime a, endTime a) of (Some s, Some e) \<Rightarrow> e > s | _ \<Rightarrow> False) \<and>
      list_all documentValid (documents a))"

definition trimDocument :: "string \<times> string \<times> string \<Rightarrow> string \<times> string \<times> string" where
  "trimDocument doc = (case doc of (n, u, t) \<Rightarrow> (trim n, trim u, trim t))"

text \<open>
  \<open>createAuction\<close>. \<open>newId\<close> is the ObjectId that \<open>new Auction(...)\<close>
  generates; inserting under an id that is taken is a duplicate-key error of the store.
\<close>

definition createAuction ::
  "instant \<Rightarrow> oid \<Rightarrow> db \<Rightarrow> user \<Rightarrow> auction_body \<Rightarrow> (rejection + auction) \<times> db" where
  "createAuction now newId d u b =
     (if falsy (body_title b) \<or> falsy (body_description b) \<or> body_startingBid b = None \<or>
         body_endTime b = None
      then (Inl (Rejection 400 MissingRequiredFields), d)
      else
        let auctionStartTime = (case body_startTime b of Some t \<Rightarrow> t | None \<Rightarrow> Some now);
            auctionEndTime = the (body_endTime b)
        in
        if date_le auctionEndTime auctionStartTime
        then (Inl (Rejection 400 EndNotAfterStart), d)
        else if date_le auctionEndTime (Some now) \<and> date_le auctionStartTime (Some now)
        then (Inl (Rejection 400 EndNotInFuture), d)
        else
          let newAuction =
                \<lparr>createdAt = now, updatedAt = now,
                 title = trim (the (body_title b)),
                 description = trim (the (body_description b)),
                 imageUrl = map_option trim (body_imageUrl b),
                 images = (case body_images b of Some xs \<Rightarrow> xs | None \<Rightarrow> []),
                 startingBid = the (body_startingBid b),
                 currentBid = the (body_startingBid b),
                 highestBidder = None,
                 bidCount = 0,
                 views = 0,
                 likedBy = [],
                 seller = id_of (user_id u),
                 startTime = auctionStartTime,
                 endTime = auctionEndTime,
                 documents =
                   (case body_documents b of Some ds \<Rightarrow> map trimDocument ds | None \<Rightarrow> []),
                 category = map_option trim (body_category b),
                 location = map_option trim (body_location b)\<rparr>
          in
          if \<not> auctionValid newAuction then (Inl (Rejection 400 ValidationError), d)
          else if auctions d newId \<noteq> None then (Inl (Rejection 500 ServerError), d)
          else (Inr newAuction, d\<lparr>auctions := (auctions d)(newId \<mapsto> newAuction)\<rparr>))"

text \<open>
  The loop \<open>Object.keys(req.body).forEach(key => { if (allowedUpdates.includes(key))
  auction[key] = req.body[key] })\<close> of \<open>updateAuction\<close>, one key after the other.
\<close>

definition assignKey ::
  "string list \<Rightarrow> string \<Rightarrow> 'v option \<Rightarrow> ('v \<Rightarrow> auction \<Rightarrow> auction) \<Rightarrow> auction \<Rightarrow> auction" where
  "assignKey allowedUpdates key v assign a =
     (case v of
        None \<Rightarrow> a
      | Some x \<Rightarrow> if key \<in> set allowedUpdates then assign x a else a)"

definition applyUpdates :: "string list \<Rightarrow> auction_body \<Rightarrow> auction \<Rightarrow> auction" where
  "applyUpdates allowedUpdates b a =
     (assignKey allowedUpdates ''documents'' (body_documents b)
        (\<lambda>v x. x\<lparr>documents := map trimDocument v\<rparr>)
     (assignKey allowedUpdates ''location'' (body_location b)
        (\<lambda>v x. x\<lparr>location := Some (trim v)\<rparr>)
     (assignKey allowedUpdates ''category'' (body_category b)
        (\<lambda>v x. x\<lparr>category := Some (trim v)\<rparr>)
     (assignKey allowedUpdates ''images'' (body_images b) (\<lambda>v x. x\<lparr>images := v\<rparr>)
     (assignKey allowedUpdates ''imageUrl'' (body_imageUrl b)
        (\<lambda>v x. x\<lparr>imageUrl := Some (trim v)\<rparr>)
     (assignKey allowedUpdates ''startTime'' (body_startTime b) (\<lambda>v x. x\<lparr>startTime := v\<rparr>)
     (assignKey allowedUpdates ''endTime'' (body_endTime b) (\<lambda>v x. x\<lparr>endTime := v\<rparr>)
     (assignKey allowedUpdates ''currentBid'' (body_currentBid b)
        (\<lambda>v x. x\<lparr>currentBid := v\<rparr>)
     (assignKey allowedUpdates ''startingBid'' (body_startingBid b)
        (\<lambda>v x. x\<lparr>startingBid := v\<rparr>)
     (assignKey allowedUpdates ''description'' (body_description b)
        (\<lambda>v x. x\<lparr>description := trim v\<rparr>)
     (assignKey allowedUpdates ''title'' (body_title b) (\<lambda>v x. x\<lparr>title := trim v\<rparr>)
        a)))))))))))"

text \<open>
  \<open>auction.save()\<close> of a loaded document: the validators run, and a document that
  was modified gets a new \<open>updatedAt\<close>.
\<close>

definition saveAuction :: "instant \<Rightarrow> db \<Rightarrow> oid \<Rightarrow> auction \<Rightarrow> auction \<Rightarrow> (rejection + auction) \<times> db" where
  "saveAuction now d aid old a =
     (if \<not> auctionValid a then (Inl (Rejection 400 ValidationError), d)
      else
        let stored = (if a = old then a else a\<lparr>updatedAt := now\<rparr>)
        in (Inr stored, d\<lparr>auctions := (auctions d)(aid \<mapsto> stored)\<rparr>))"

definition updateAuction ::
  "instant \<Rightarrow> db \<Rightarrow> user \<Rightarrow> oid option \<Rightarrow> auction_body \<Rightarrow> (rejection + auction) \<times> db" where
  "updateAuction now d u paramId b =
     (case paramId of
        None \<Rightarrow> (Inl (Rejection 400 InvalidIdFormat), d)
      | Some aid \<Rightarrow>
     (case auctions d aid of
        None \<Rightarrow> (Inl (Rejection 404 AuctionNotFound), d)
      | Some a \<Rightarrow>
        if \<not> sellerIs (seller a) (user_id u) \<and> \<not> isAdmin u
        then (Inl (Rejection 403 NotAuthorizedToUpdate), d)
        else
          let currentStatus = auction_status now a in
          if currentStatus = Ended \<and> \<not> isAdmin u
          then (Inl (Rejection 400 CannotUpdateEnded), d)
          else
            let changesStartingBid =
                  (body_startingBid b \<noteq> None \<and> Some (startingBid a) \<noteq> body_startingBid b)
            in
            if changesStartingBid \<and>
               (currentStatus = Active \<or> currentStatus = Ended \<or> bidCount a > 0) \<and>
               \<not> isAdmin u
            then (Inl (Rejection 400 CannotChangeStartingBid), d)
            else
              let b1 = (if changesStartingBid \<and> bidCount a = 0
                        then b\<lparr>body_currentBid := body_startingBid b\<rparr> else b);
                  allowedUpdates0 = [''title'', ''description'', ''imageUrl'', ''images'',
                                     ''category'', ''location'', ''documents''];
                  timesAllowed =
                    (isAdmin u \<or>
                     (currentStatus = Upcoming \<and> sellerIs (seller a) (user_id u)));
                  allowedUpdates1 =
                    (if timesAllowed then allowedUpdates0 @ [''endTime'', ''startTime'']
                     else allowedUpdates0);
                  newEndTime = (case body_endTime b1 of Some t \<Rightarrow> t | None \<Rightarrow> endTime a);
                  newStartTime =
                    (case body_startTime b1 of Some t \<Rightarrow> t | None \<Rightarrow> startTime a)
              in
              if timesAllowed \<and> date_le newEndTime newStartTime
              then (Inl (Rejection 400 EndNotAfterStart), d)
              else
                let allowedUpdates =
                      (if isAdmin u \<or>
                          (currentStatus = Upcoming \<and> sellerIs (seller a) (user_id u) \<and>
                           bidCount a = 0)
                       then allowedUpdates1 @ [''startingBid''] else allowedUpdates1)
                in saveAuction now d aid a (applyUpdates allowedUpdates b1 a)))"

definition deleteAuction ::
  "instant \<Rightarrow> db \<Rightarrow> user \<Rightarrow> oid option \<Rightarrow> (rejection + unit) \<times> db" where
  "deleteAuction now d u paramId =
     (case paramId of
        None \<Rightarrow> (Inl (Rejection 400 InvalidIdFormat), d)
      | Some aid \<Rightarrow>
     (case auctions d aid of
        None \<Rightarrow> (Inl (Rejection 404 AuctionNotFound), d)
      | Some a \<Rightarrow>
        if \<not> sellerIs (seller a) (user_id u) \<and> \<not> isAdmin u
        then (Inl (Rejection 403 NotAuthorizedToDelete), d)
        else
          let currentStatus = auction_status now a in
          if currentStatus \<in> set [Active, Ended] \<and> bidCount a > 0 \<and> \<not> isAdmin u
          then (Inl (Rejection 400 CannotDeleteWithBids), d)
          else (Inr (), d\<lparr>auctions := (auctions d)(aid := None)\<rparr>)))"

text \<open>
  \<open>toggleLikeAuction\<close>: \<open>$pull\<close> removes every occurrence of the user,
  \<open>$addToSet\<close> appends the user unless it is there; the reply says which was done.
\<close>

datatype like_message = Unliked | Liked

definition pull :: "oid \<Rightarrow> oid list \<Rightarrow> oid list" where
  "pull x xs = filter (\<lambda>y. y \<noteq> x) xs"

definition addToSet :: "oid \<Rightarrow> oid list \<Rightarrow> oid list" where
  "addToSet x xs = (if x \<in> set xs then xs else xs @ [x])"

definition toggleLikeAuction ::
  "instant \<Rightarrow> db \<Rightarrow> user \<Rightarrow> oid option \<Rightarrow> (rejection + like_message \<times> auction) \<times> db" where
  "toggleLikeAuction now d u paramId =
     (case paramId of
        None \<Rightarrow> (Inl (Rejection 400 InvalidIdFormat), d)
      | Some aid \<Rightarrow>
     (case auctions d aid of
        None \<Rightarrow> (Inl (Rejection 404 AuctionNotFound), d)
      | Some a \<Rightarrow>
        let userId = id_of (user_id u);
            isLiked = list_ex (\<lambda>likerId. likerId = userId) (likedBy a);
            updatedAuction =
              (if isLiked then a\<lparr>likedBy := pull userId (likedBy a), updatedAt := now\<rparr>
               else a\<lparr>likedBy := addToSet userId (likedBy a), updatedAt := now\<rparr>)
        in (Inr (if isLiked then Unliked else Liked, updatedAuction),
            d\<lparr>auctions := (auctions d)(aid \<mapsto> updatedAuction)\<rparr>)))"

section \<open>The bid log and the auction's summary of it\<close>

text \<open>
  The relation between an auction document and the bids that refer to it, in the order
  of their insertion: the count is exact; without bids the price is the starting bid and
  nobody leads; with bids the last one carries the current price and the leading bidder,
  and every earlier one is strictly lower.
\<close>

definition consistent :: "auction \<Rightarrow> bid list \<Rightarrow> bool" where
  "consistent A bs =
     (bidCount A = length bs \<and>
      (bs = [] \<longrightarrow> currentBid A = startingBid A \<and> highestBidder A = None) \<and>
      (bs \<noteq> [] \<longrightarrow>
         amount (last bs) = currentBid A \<and>
         highestBidder A = Some (bidder (last bs)) \<and>
         (\<forall>b \<in> set (butlast bs). amount b < currentBid A)))"

definition bid_inv :: "db \<Rightarrow> oid \<Rightarrow> bool" where
  "bid_inv d aid =
     (case auctions d aid of None \<Rightarrow> False | Some A \<Rightarrow> consistent A (bidsOn d aid))"

section \<open>Example data\<close>

text \<open>
  One auction, listed by user 1 at instant 500 with a starting bid of 50, open from
  instant 1000 to instant 10000000, and the requests that the examples below replay.
\<close>

definition emptyBody :: auction_body where
  "emptyBody =
     \<lparr>body_title = None, body_description = None, body_startingBid = None,
      body_currentBid = None, body_endTime = None, body_startTime = None,
      body_imageUrl = None, body_images = None, body_category = None,
      body_location = None, body_documents = None\<rparr>"

definition demoBody :: auction_body where
  "demoBody =
     emptyBody\<lparr>body_title := Some ''Lamp'', body_description := Some ''Brass lamp'',
       body_startingBid := Some 50, body_endTime := Some (Some 10000000),
       body_startTime := Some (Some 1000), body_images := Some [''lamp.png'']\<rparr>"

definition demoAuction :: auction where
  "demoAuction =
     \<lparr>createdAt = 500, updatedAt = 500, title = ''Lamp'', description = ''Brass lamp'',
      imageUrl = None, images = [''lamp.png''], startingBid = 50, currentBid = 50,
      highestBidder = None, bidCount = 0, views = 0, likedBy = [], seller = 1,
      startTime = Some 1000, endTime = Some 10000000, documents = [], category = None,
      location = None\<rparr>"

definition demoUsers :: "oid \<rightharpoonup> user_doc" where
  "demoUsers = [1 \<mapsto> \<lparr>doc_isAdmin = False, doc_isBanned = False\<rparr>,
                2 \<mapsto> \<lparr>doc_isAdmin = False, doc_isBanned = False\<rparr>,
                3 \<mapsto> \<lparr>doc_isAdmin = True, doc_isBanned = False\<rparr>]"

definition emptyDb :: db where
  "emptyDb = \<lparr>auctions = Map.empty, bids = []\<rparr>"

definition demoDb :: db where
  "demoDb = \<lparr>auctions = [7 \<mapsto> demoAuction], bids = []\<rparr>"

definition demoBid :: "oid \<Rightarrow> rat \<Rightarrow> bid_request" where
  "demoBid who amt = \<lparr>auctionId = Some 7, bidderId = IdObject who, body_amount = JsNumber amt\<rparr>"

definition demoBids :: "(instant \<times> storage_fault \<times> bid_request) list" where
  "demoBids = [(2000, NoFault, demoBid 2 100), (2001, NoFault, demoBid 3 150),
               (2002, NoFault, demoBid 2 100)]"

text \<open>The same auction listed with a starting bid of zero.\<close>

definition zeroStartDb :: db where
  "zeroStartDb = \<lparr>auctions = [7 \<mapsto> demoAuction\<lparr>startingBid := 0, currentBid := 0\<rparr>], bids = []\<rparr>"

text \<open>The same auction with a starting bid above its current bid.\<close>

definition raisedStartDb :: db where
  "raisedStartDb = \<lparr>auctions = [7 \<mapsto> demoAuction\<lparr>startingBid := 100\<rparr>], bids = []\<rparr>"

section \<open>Status derivation\<close>

text \<open>
  Claim C5. The status is a function of the read time and the two timestamps alone. It is
  \<open>invalid-dates\<close> as soon as one timestamp is not a date; otherwise \<open>upcoming\<close>
  before the start, \<open>ending-soon\<close> or \<open>active\<close> between start and end according
  to whether less than one hour remains, and \<open>ended\<close> from the end on. The last case is
  stated for the auctions the schema admits, whose end lies after their start, and for
  every auction that has started.
\<close>

theorem status_derivation:
  "status now None et = InvalidDates \<and>
   status now st None = InvalidDates \<and>
   (now < s \<longrightarrow> status now (Some s) (Some e) = Upcoming) \<and>
   (s \<le> now \<and> now < e \<and> e - now < 60 * 60 * 1000 \<longrightarrow>
      status now (Some s) (Some e) = EndingSoon) \<and>
   (s \<le> now \<and> now < e \<and> e - now \<ge> 60 * 60 * 1000 \<longrightarrow>
      status now (Some s) (Some e) = Active) \<and>
   (s < e \<and> e \<le> now \<longrightarrow> status now (Some s) (Some e) = Ended) \<and>
   (s \<le> now \<and> e \<le> now \<longrightarrow> status now (Some s) (Some e) = Ended)"
  by (cases st) (auto simp: oneHour_def)

text \<open>
  The four readings of the specification's example, taken at instant 10000000: an end 30
  minutes ahead, an end two hours ahead, an end in the past, a start in the future.
\<close>

theorem status_derivation_witness:
  "status 10000000 (Some 0) (Some 11800000) = EndingSoon \<and>
   status 10000000 (Some 0) (Some 17200000) = Active \<and>
   status 10000000 (Some 0) (Some 9999999) = Ended \<and>
   status 10000000 (Some 10000001) (Some 17200000) = Upcoming \<and>
   status 10000000 None (Some 17200000) = InvalidDates"
  using status_derivation [of 10000000 "Some 17200000" "Some 0" 0 11800000]
    status_derivation [of 10000000 "Some 17200000" "Some 0" 0 17200000]
    status_derivation [of 10000000 "Some 17200000" "Some 0" 0 9999999]
    status_derivation [of 10000000 "Some 17200000" "Some 0" 10000001 17200000]
  by simp

section \<open>Placing a bid\<close>

lemmas txn_defs = startTransaction_def abortTransaction_def commitTransaction_def
  updateAuctionInSession_def saveBidInSession_def serverError_def

lemma demo_found: "auctions demoDb 7 = Some demoAuction"
  by (simp add: demoDb_def)

lemma demo_status:
  "auction_status 2000 demoAuction = Active" "auction_status 500 demoAuction = Upcoming"
  by (simp_all add: auction_status_def demoAuction_def oneHour_def)

lemma demo_fields:
  "seller demoAuction = 1" "currentBid demoAuction = 50" "startingBid demoAuction = 50"
  "bidCount demoAuction = 0" "updatedAt demoAuction = 500" "likedBy demoAuction = []"
  by (simp_all add: demoAuction_def)

lemma demoBid_fields:
  "auctionId (demoBid who amt) = Some 7" "bidderId (demoBid who amt) = IdObject who"
  "body_amount (demoBid who amt) = JsNumber amt"
  by (simp_all add: demoBid_def)

text \<open>
  What \<open>protect\<close> hands to the controllers: the user's id as an ObjectId, never as a
  string. The strict comparison with the seller's id string is therefore false for every
  user who comes through the middleware.
\<close>

lemma protect_gives_object_id:
  assumes "protect users cred = Inr u"
  shows "\<exists>uid. cred = Token uid \<and> user_id u = IdObject uid"
  using assms
  by (auto simp: protect_def split: credentials.splits option.splits if_splits)

lemma protect_never_sellerIs:
  assumes "protect users cred = Inr u"
  shows "\<not> sellerIs s (user_id u)"
  using protect_gives_object_id [OF assms] by (auto simp: sellerIs_def)

lemma demo_protect:
  "protect demoUsers (Token 1) = Inr \<lparr>user_id = IdObject 1, isAdmin = False\<rparr>"
  "protect demoUsers (Token 3) = Inr \<lparr>user_id = IdObject 3, isAdmin = True\<rparr>"
  by (simp_all add: protect_def demoUsers_def)

text \<open>
  Claim C2, as the code has it. A request whose auction id is malformed or whose amount is
  not a positive number is turned away before the auction is looked up. Every other
  request meets the checks in this order, each with its own reply: 404 when the auction
  does not exist; 403 when the bidder id is the string form of the seller's id; then, for
  a bidder who is not the seller, 400 naming the status when the auction is neither active
  nor ending soon, 400 disclosing the current bid when the amount does not exceed it, and
  400 disclosing the starting bid when there is no bid yet and the amount is below it.
\<close>

theorem placeBid_precondition_order:
  assumes "auctionId req = Some aid" and "body_amount req = JsNumber amt" and "0 < amt"
  shows
   "(auctions d aid = None \<longrightarrow>
       fst (placeBid now fault d req) = Inl (Rejection 404 AuctionNotFound)) \<and>
    (\<forall>a. auctions d aid = Some a \<longrightarrow>
       (bidderId req = IdString (seller a) \<longrightarrow>
          fst (placeBid now fault d req) = Inl (Rejection 403 SellersCannotBid)) \<and>
       (id_of (bidderId req) \<noteq> seller a \<longrightarrow>
          (auction_status now a \<noteq> Active \<and> auction_status now a \<noteq> EndingSoon \<longrightarrow>
             fst (placeBid now fault d req) =
               Inl (Rejection 400 (AuctionNotActive (auction_status now a)))) \<and>
          (auction_status now a = Active \<or> auction_status now a = EndingSoon \<longrightarrow>
             (amt \<le> currentBid a \<longrightarrow>
                fst (placeBid now fault d req) =
                  Inl (Rejection 400 (BidNotHigher (currentBid a)))) \<and>
             (currentBid a < amt \<and> bidCount a = 0 \<and> amt < startingBid a \<longrightarrow>
                fst (placeBid now fault d req) =
                  Inl (Rejection 400 (FirstBidBelowStarting (startingBid a))))))) \<and>
    distinct [Rejection 404 AuctionNotFound, Rejection 403 SellersCannotBid,
              Rejection 400 (AuctionNotActive st), Rejection 400 (BidNotHigher cur),
              Rejection 400 (FirstBidBelowStarting start)]"
  using assms
  by (auto simp: placeBid_def Let_def txn_defs sellerIs_def)

text \<open>
  The five replies on the example auction: an unknown auction, the seller bidding under
  the string form of the id, a bid before the start, a bid of 40 against a current bid of
  50, and a first bid of 60 where the starting bid is 100.
\<close>

theorem placeBid_precondition_order_witness:
  "fst (placeBid 2000 NoFault demoDb
         \<lparr>auctionId = Some 99, bidderId = IdObject 2, body_amount = JsNumber 40\<rparr>) =
     Inl (Rejection 404 AuctionNotFound) \<and>
   fst (placeBid 2000 NoFault demoDb
         \<lparr>auctionId = Some 7, bidderId = IdString 1, body_amount = JsNumber 60\<rparr>) =
     Inl (Rejection 403 SellersCannotBid) \<and>
   fst (placeBid 500 NoFault demoDb (demoBid 2 60)) =
     Inl (Rejection 400 (AuctionNotActive Upcoming)) \<and>
   fst (placeBid 2000 NoFault demoDb (demoBid 2 40)) = Inl (Rejection 400 (BidNotHigher 50)) \<and>
   fst (placeBid 2000 NoFault raisedStartDb (demoBid 2 60)) =
     Inl (Rejection 400 (FirstBidBelowStarting 100))"
proof -
  let ?r1 = "\<lparr>auctionId = Some 99, bidderId = IdObject 2, body_amount = JsNumber 40\<rparr>"
  let ?r2 = "\<lparr>auctionId = Some 7, bidderId = IdString 1, body_amount = JsNumber 60\<rparr>"
  have c1: "fst (placeBid 2000 NoFault demoDb ?r1) = Inl (Rejection 404 AuctionNotFound)"
    using placeBid_precondition_order [of ?r1 99 40 demoDb 2000 NoFault]
    by (simp add: demoDb_def)
  have c2: "fst (placeBid 2000 NoFault demoDb ?r2) = Inl (Rejection 403 SellersCannotBid)"
    using placeBid_precondition_order [of ?r2 7 60 demoDb 2000 NoFault]
    by (simp add: demo_found demo_fields)
  have c3: "fst (placeBid 500 NoFault demoDb (demoBid 2 60)) =
      Inl (Rejection 400 (AuctionNotActive Upcoming))"
    using placeBid_precondition_order [of "demoBid 2 60" 7 60 demoDb 500 NoFault]
    by (simp add: demo_found demo_fields demoBid_fields demo_status)
  have c4: "fst (placeBid 2000 NoFault demoDb (demoBid 2 40)) =
      Inl (Rejection 400 (BidNotHigher 50))"
    using placeBid_precondition_order [of "demoBid 2 40" 7 40 demoDb 2000 NoFault]
    by (simp add: demo_found demo_fields demoBid_fields demo_status)
  have raised: "auctions raisedStartDb 7 = Some (demoAuction\<lparr>startingBid := 100\<rparr>)"
    by (simp add: raisedStartDb_def)
  have raised_status: "auction_status 2000 (demoAuction\<lparr>startingBid := 100\<rparr>) = Active"
    by (simp add: auction_status_def demoAuction_def oneHour_def)
  have c5: "fst (placeBid 2000 NoFault raisedStartDb (demoBid 2 60)) =
      Inl (Rejection 400 (FirstBidBelowStarting 100))"
    using placeBid_precondition_order [of "demoBid 2 60" 7 60 raisedStartDb 2000 NoFault]
    by (simp add: raised raised_status demo_fields demoBid_fields)
  from c1 c2 c3 c4 c5 show ?thesis by simp
qed

text \<open>
  A request for an auction that does not exist, with the amount zero, is answered with the
  validation error and not with 404: the check of the amount comes before the lookup.
\<close>

theorem placeBid_validation_first_counterexample:
  "auctions demoDb 99 = None \<and>
   fst (placeBid 2000 NoFault demoDb
         \<lparr>auctionId = Some 99, bidderId = IdObject 2, body_amount = JsNumber 0\<rparr>) =
     Inl (Rejection 400 InvalidBidAmount) \<and>
   Rejection 400 InvalidBidAmount \<noteq> Rejection 404 AuctionNotFound"
  by (simp add: placeBid_def demoDb_def)

text \<open>
  A bidder who comes through \<open>protect\<close> is never answered 403 by \<open>placeBid\<close>,
  not even on an auction of their own.
\<close>

lemma placeBid_after_protect:
  assumes "protect users cred = Inr u" and "bidderId req = user_id u"
  shows "fst (placeBid now fault d req) \<noteq> Inl (Rejection 403 SellersCannotBid)"
  using protect_never_sellerIs [OF assms(1)] assms(2)
  by (auto simp: placeBid_def Let_def txn_defs split: option.splits jsvalue.splits)

text \<open>
  Claim C10. While the auction's current bid is at least its starting bid, the check of the
  first bid against the starting bid never produces the reply: an amount above the current
  bid is above the starting bid, and a bid equal to the starting bid is turned away by the
  comparison with the current bid.
\<close>

theorem first_bid_branch_unreachable:
  assumes "auctionId req = Some aid" and "auctions d aid = Some a"
    and "startingBid a \<le> currentBid a"
  shows
   "fst (placeBid now fault d req) \<noteq> Inl (Rejection code (FirstBidBelowStarting x)) \<and>
    (\<forall>amt. currentBid a < amt \<longrightarrow> startingBid a < amt) \<and>
    (body_amount req = JsNumber (startingBid a) \<and> 0 < startingBid a \<and>
     \<not> sellerIs (seller a) (bidderId req) \<and>
     (auction_status now a = Active \<or> auction_status now a = EndingSoon) \<longrightarrow>
       fst (placeBid now fault d req) = Inl (Rejection 400 (BidNotHigher (currentBid a))))"
  using assms
  by (auto simp: placeBid_def Let_def txn_defs split: jsvalue.splits option.splits)

text \<open>A first bid of exactly the starting bid, 50, on the example auction.\<close>

theorem first_bid_branch_unreachable_witness:
  "auctionId (demoBid 2 50) = Some 7 \<and> auctions demoDb 7 = Some demoAuction \<and>
   startingBid demoAuction \<le> currentBid demoAuction \<and>
   fst (placeBid 2000 NoFault demoDb (demoBid 2 50)) \<noteq>
     Inl (Rejection 400 (FirstBidBelowStarting 50)) \<and>
   fst (placeBid 2000 NoFault demoDb (demoBid 2 50)) = Inl (Rejection 400 (BidNotHigher 50))"
proof -
  have h1: "auctionId (demoBid 2 50) = Some 7" by (simp add: demoBid_fields)
  have h3: "startingBid demoAuction \<le> currentBid demoAuction" by (simp add: demo_fields)
  have "\<not> sellerIs (seller demoAuction) (bidderId (demoBid 2 50))"
    by (simp add: sellerIs_def demoBid_fields)
  with first_bid_branch_unreachable [OF h1 demo_found h3, of 2000 NoFault 400 50]
  show ?thesis
    using h1 h3 by (simp add: demo_found demo_fields demoBid_fields demo_status)
qed

text \<open>
  Claim C3, as the code has it. A request that passes every check, whose amount reaches
  the minimum of 0.01 that the Bid schema sets, and whose storage calls succeed, appends
  exactly one bid with the request's auction, bidder and amount, stamped with the current
  time; on the auction it sets the current bid to the amount, the highest bidder to the
  bidder and raises the bid count by one, and the schema's timestamps set \<open>updatedAt\<close>
  to the current time; nothing else in the store changes. The reply carries the new bid
  and the auction's new current bid, highest bidder and bid count.
\<close>

theorem placeBid_success:
  assumes "auctionId req = Some aid" and "body_amount req = JsNumber amt" and "0 < amt"
    and "auctions d aid = Some a"
    and "\<not> sellerIs (seller a) (bidderId req)"
    and "auction_status now a = Active \<or> auction_status now a = EndingSoon"
    and "currentBid a < amt"
    and "\<not> (bidCount a = 0 \<and> amt < startingBid a)"
    and "1 / 100 \<le> amt" and "fault = NoFault"
  shows
   "placeBid now fault d req =
      (Inr \<lparr>reply_bid =
              \<lparr>createdAt = now, updatedAt = now, auction = aid,
               bidder = id_of (bidderId req), amount = amt\<rparr>,
            reply_auction =
              \<lparr>summary_id = aid, summary_currentBid = amt,
               summary_highestBidder = Some (id_of (bidderId req)),
               summary_bidCount = bidCount a + 1\<rparr>\<rparr>,
       d\<lparr>auctions := (auctions d)(aid \<mapsto>
            a\<lparr>currentBid := amt, highestBidder := Some (id_of (bidderId req)),
              bidCount := bidCount a + 1, updatedAt := now\<rparr>),
         bids := bids d @
           [\<lparr>createdAt = now, updatedAt = now, auction = aid,
             bidder = id_of (bidderId req), amount = amt\<rparr>]\<rparr>)"
  using assms
  by (auto simp: placeBid_def Let_def txn_defs bidUpdate_def newBid_def bidValid_def)

text \<open>User 2 bids 100 on the example auction at instant 2000.\<close>

theorem placeBid_success_witness:
  "(0::rat) < 100 \<and> auctions demoDb 7 = Some demoAuction \<and>
   \<not> sellerIs (seller demoAuction) (IdObject 2) \<and>
   auction_status 2000 demoAuction = Active \<and> currentBid demoAuction < 100 \<and>
   \<not> (bidCount demoAuction = 0 \<and> 100 < startingBid demoAuction) \<and> (1::rat) / 100 \<le> 100 \<and>
   placeBid 2000 NoFault demoDb (demoBid 2 100) =
     (Inr \<lparr>reply_bid =
             \<lparr>createdAt = 2000, updatedAt = 2000, auction = 7, bidder = 2, amount = 100\<rparr>,
           reply_auction =
             \<lparr>summary_id = 7, summary_currentBid = 100, summary_highestBidder = Some 2,
              summary_bidCount = 1\<rparr>\<rparr>,
      demoDb\<lparr>auctions := (auctions demoDb)(7 \<mapsto>
           demoAuction\<lparr>currentBid := 100, highestBidder := Some 2, bidCount := 1,
             updatedAt := 2000\<rparr>),
        bids := [\<lparr>createdAt = 2000, updatedAt = 2000, auction = 7, bidder = 2,
                  amount = 100\<rparr>]\<rparr>)"
proof -
  have h1: "auctionId (demoBid 2 100) = Some 7"
    and h2: "body_amount (demoBid 2 100) = JsNumber 100"
    by (simp_all add: demoBid_fields)
  have h3: "(0::rat) < 100" by simp
  have h5: "\<not> sellerIs (seller demoAuction) (bidderId (demoBid 2 100))"
    by (simp add: sellerIs_def demoBid_fields)
  have h6: "auction_status 2000 demoAuction = Active \<or> auction_status 2000 demoAuction = EndingSoon"
    by (simp add: demo_status)
  have h7: "currentBid demoAuction < 100" by (simp add: demo_fields)
  have h8: "\<not> (bidCount demoAuction = 0 \<and> 100 < startingBid demoAuction)"
    by (simp add: demo_fields)
  have h9: "(1::rat) / 100 \<le> 100" by simp
  have empty_log: "bids demoDb = []" by (simp add: demoDb_def)
  from placeBid_success [OF h1 h2 h3 demo_found h5 h6 h7 h8 h9 refl]
  show ?thesis
    using h5 h7 h8
    by (simp add: demo_found demo_status demo_fields demoBid_fields empty_log)
qed

text \<open>
  Two requests against the claim as it was stated. On an auction that starts at zero, a
  bid of 0.005 passes every check of the controller and is then refused by the Bid
  schema: the reply is 500 and no bid is stored. And the accepted bid of 100 on the
  example auction moves the auction's \<open>updatedAt\<close> from 500 to 2000.
\<close>

theorem placeBid_success_counterexample:
  "(0::rat) < 1 / 200 \<and>
   auctions zeroStartDb 7 = Some (demoAuction\<lparr>startingBid := 0, currentBid := 0\<rparr>) \<and>
   \<not> sellerIs (seller (demoAuction\<lparr>startingBid := 0, currentBid := 0\<rparr>)) (IdObject 2) \<and>
   auction_status 2000 (demoAuction\<lparr>startingBid := 0, currentBid := 0\<rparr>) = Active \<and>
   currentBid (demoAuction\<lparr>startingBid := 0, currentBid := 0\<rparr>) < 1 / 200 \<and>
   \<not> (1 / 200 < startingBid (demoAuction\<lparr>startingBid := 0, currentBid := 0\<rparr>)) \<and>
   placeBid 2000 NoFault zeroStartDb (demoBid 2 (1 / 200)) =
     (Inl (Rejection 500 ServerError), zeroStartDb) \<and>
   updatedAt demoAuction = 500 \<and>
   map_option updatedAt (auctions (snd (placeBid 2000 NoFault demoDb (demoBid 2 100))) 7) =
     Some 2000"
  by (simp add: placeBid_def Let_def txn_defs zeroStartDb_def demoDb_def demoBid_def
      sellerIs_def auction_status_def oneHour_def demoAuction_def bidUpdate_def newBid_def
      bidValid_def)

text \<open>
  Every run of \<open>placeBid\<close> either leaves the store as it was or applies both writes,
  and it applies them only for an amount above the current bid.
\<close>

lemma placeBid_cases:
  "snd (placeBid now fault d req) = d \<or>
   (\<exists>aid a amt. auctionId req = Some aid \<and> auctions d aid = Some a \<and>
      body_amount req = JsNumber amt \<and> currentBid a < amt \<and>
      snd (placeBid now fault d req) =
        d\<lparr>auctions := (auctions d)(aid \<mapsto> bidUpdate now amt (bidderId req) a),
          bids := bids d @ [newBid now aid (bidderId req) amt]\<rparr>)"
proof (cases "failedCommit fault")
  case None
  then show ?thesis
    by (auto simp: placeBid_def Let_def txn_defs split: option.splits jsvalue.splits)
next
  case (Some fate)
  then show ?thesis
    by (cases fate)
       (auto simp: placeBid_def Let_def txn_defs split: option.splits jsvalue.splits)
qed

text \<open>
  What holds of the store on every run. A request that is answered with a rejection, by
  a check or with 500, leaves the store as it was; so does every run in which the update
  or the save throws; a run ends without a response only when the commit throws; and no
  run leaves one of the two writes without the other.
\<close>

lemma placeBid_store_whole:
  "(\<forall>code r. fst (placeBid now fault d req) = Inl (Rejection code r) \<longrightarrow>
      snd (placeBid now fault d req) = d) \<and>
   (fault = UpdateFails \<or> fault = SaveFails \<longrightarrow> snd (placeBid now fault d req) = d) \<and>
   (fst (placeBid now fault d req) = Inl Unanswered \<longrightarrow> (\<exists>fate. fault = CommitFails fate)) \<and>
   (snd (placeBid now fault d req) = d \<or>
    (\<exists>aid a amt. auctionId req = Some aid \<and> auctions d aid = Some a \<and>
       body_amount req = JsNumber amt \<and>
       snd (placeBid now fault d req) =
         d\<lparr>auctions := (auctions d)(aid \<mapsto> bidUpdate now amt (bidderId req) a),
           bids := bids d @ [newBid now aid (bidderId req) amt]\<rparr>))"
proof -
  let ?out = "placeBid now fault d req"
  have rejected: "\<forall>code r. fst ?out = Inl (Rejection code r) \<longrightarrow> snd ?out = d"
    by (auto simp: placeBid_def Let_def txn_defs split: option.splits jsvalue.splits)
  have thrown: "fault = UpdateFails \<or> fault = SaveFails \<longrightarrow> snd ?out = d"
    by (auto simp: placeBid_def Let_def txn_defs split: option.splits jsvalue.splits)
  have silent: "fst ?out = Inl Unanswered \<longrightarrow> (\<exists>fate. fault = CommitFails fate)"
    by (cases fault)
       (auto simp: placeBid_def Let_def txn_defs split: option.splits jsvalue.splits)
  have whole: "snd ?out = d \<or>
    (\<exists>aid a amt. auctionId req = Some aid \<and> auctions d aid = Some a \<and>
       body_amount req = JsNumber amt \<and>
       snd ?out =
         d\<lparr>auctions := (auctions d)(aid \<mapsto> bidUpdate now amt (bidderId req) a),
           bids := bids d @ [newBid now aid (bidderId req) amt]\<rparr>)"
    using placeBid_cases [of now fault d req] by blast
  from rejected thrown silent whole show ?thesis by blast
qed


section \<open>The auction's summary agrees with the bid log\<close>

lemma bidsOn_append:
  "bidsOn (d\<lparr>auctions := m, bids := bids d @ [b]\<rparr>) aid =
     (if auction b = aid then bidsOn d aid @ [b] else bidsOn d aid)"
  by (simp add: bidsOn_def)

lemma set_butlast_last: "xs \<noteq> [] \<Longrightarrow> set xs = set (butlast xs) \<union> {last xs}"
  by (metis append_butlast_last_id set_append list.simps(15) empty_set)

lemma bid_inv_placeBid:
  assumes "bid_inv d aid"
  shows "bid_inv (snd (placeBid now fault d req)) aid"
proof -
  consider (same) "snd (placeBid now fault d req) = d"
    | (written) aid' a amt where "auctions d aid' = Some a" and "currentBid a < amt"
        and "snd (placeBid now fault d req) =
          d\<lparr>auctions := (auctions d)(aid' \<mapsto> bidUpdate now amt (bidderId req) a),
            bids := bids d @ [newBid now aid' (bidderId req) amt]\<rparr>"
    using placeBid_cases [of now fault d req] by blast
  then show ?thesis
  proof cases
    case same
    with assms show ?thesis by simp
  next
    case written
    let ?d' = "snd (placeBid now fault d req)"
    let ?b = "newBid now aid' (bidderId req) amt"
    have bs': "bidsOn ?d' aid = (if aid' = aid then bidsOn d aid @ [?b] else bidsOn d aid)"
      using written(3) by (simp add: bidsOn_append newBid_def)
    show ?thesis
    proof (cases "aid' = aid")
      case False
      then have "auctions ?d' aid = auctions d aid" and "bidsOn ?d' aid = bidsOn d aid"
        using written(3) bs' by simp_all
      with assms show ?thesis by (simp add: bid_inv_def split: option.splits)
    next
      case True
      from assms written(1) True have old: "consistent a (bidsOn d aid)"
        by (simp add: bid_inv_def)
      have less: "amount b < amt" if b: "b \<in> set (bidsOn d aid)" for b
      proof -
        from b have ne: "bidsOn d aid \<noteq> []" by auto
        with b have "b \<in> set (butlast (bidsOn d aid)) \<or> b = last (bidsOn d aid)"
          using set_butlast_last [OF ne] by auto
        with old written(2) ne show ?thesis
          by (auto simp: consistent_def)
      qed
      have A': "auctions ?d' aid = Some (bidUpdate now amt (bidderId req) a)"
        using written(3) True by simp
      have B': "bidsOn ?d' aid = bidsOn d aid @ [?b]"
        using bs' True by simp
      have "consistent (bidUpdate now amt (bidderId req) a) (bidsOn d aid @ [?b])"
        using less old by (simp add: consistent_def newBid_def bidUpdate_def)
      then show ?thesis
        by (simp add: bid_inv_def A' B')
    qed
  qed
qed

lemma bid_inv_run_bids: "bid_inv d aid \<Longrightarrow> bid_inv (run_bids d reqs) aid"
  by (induction d reqs rule: run_bids.induct) (simp_all add: bid_inv_placeBid)

lemma createAuction_cases:
  assumes "createAuction now newId d u b = (Inr A, d')"
  shows "d' = d\<lparr>auctions := (auctions d)(newId \<mapsto> A)\<rparr> \<and> currentBid A = startingBid A \<and>
         bidCount A = 0 \<and> highestBidder A = None \<and> auctionValid A"
  using assms
  by (auto simp: createAuction_def Let_def split: if_splits)

lemma bid_inv_createAuction:
  assumes "createAuction now newId d u b = (Inr A, d')" and "bidsOn d newId = []"
  shows "bid_inv d' newId"
  using createAuction_cases [OF assms(1)] assms(2)
  by (simp add: bid_inv_def consistent_def bidsOn_def)

lemma bid_inv_consistent:
  assumes "bid_inv d aid"
  shows "\<exists>A. auctions d aid = Some A \<and>
     bidCount A = length (bidsOn d aid) \<and>
     (bidsOn d aid = [] \<longrightarrow> currentBid A = startingBid A \<and> highestBidder A = None) \<and>
     (bidsOn d aid \<noteq> [] \<longrightarrow>
        currentBid A = Max (amount ` set (bidsOn d aid)) \<and>
        (\<forall>b \<in> set (bidsOn d aid). amount b = currentBid A \<longrightarrow>
           highestBidder A = Some (bidder b)))"
proof -
  from assms obtain A where A: "auctions d aid = Some A"
    by (auto simp: bid_inv_def split: option.splits)
  with assms have cons: "consistent A (bidsOn d aid)"
    by (simp add: bid_inv_def)
  let ?bs = "bidsOn d aid"
  from cons have cnt: "bidCount A = length ?bs"
    and emp: "?bs = [] \<longrightarrow> currentBid A = startingBid A \<and> highestBidder A = None"
    and lst: "?bs \<noteq> [] \<longrightarrow> amount (last ?bs) = currentBid A \<and>
               highestBidder A = Some (bidder (last ?bs)) \<and>
               (\<forall>b \<in> set (butlast ?bs). amount b < currentBid A)"
    by (simp_all add: consistent_def)
  have "?bs \<noteq> [] \<longrightarrow>
        currentBid A = Max (amount ` set ?bs) \<and>
        (\<forall>b \<in> set ?bs. amount b = currentBid A \<longrightarrow> highestBidder A = Some (bidder b))"
  proof
    assume ne: "?bs \<noteq> []"
    note parts = set_butlast_last [OF ne]
    have "Max (amount ` set ?bs) = currentBid A"
    proof (rule Max_eqI)
      show "finite (amount ` set ?bs)" by simp
      show "currentBid A \<in> amount ` set ?bs" using ne lst by (metis imageI last_in_set)
      fix y assume "y \<in> amount ` set ?bs"
      then show "y \<le> currentBid A" using parts lst ne by auto
    qed
    moreover have "\<forall>b \<in> set ?bs. amount b = currentBid A \<longrightarrow> highestBidder A = Some (bidder b)"
      using parts lst ne by auto
    ultimately show "currentBid A = Max (amount ` set ?bs) \<and>
        (\<forall>b \<in> set ?bs. amount b = currentBid A \<longrightarrow> highestBidder A = Some (bidder b))"
      by simp
  qed
  with A cnt emp show ?thesis by blast
qed

text \<open>
  Claim C1. Take an auction at its creation, under an id that no bid refers to, and let
  any sequence of bid requests follow, accepted or not, on this auction or on others, at
  any times and with any storage behaviour. Afterwards the auction's bid count is the
  number of bids that refer to it; without such bids its current bid is its starting bid
  and it has no highest bidder; with such bids its current bid is the largest amount
  among them and its highest bidder is the bidder of every bid that carries that amount.
\<close>

theorem bid_log_consistency:
  assumes "bidsOn d0 newId = []"
    and "createAuction now0 newId d0 u body = (Inr A0, d1)"
  shows "\<exists>A. auctions (run_bids d1 reqs) newId = Some A \<and>
     bidCount A = length (bidsOn (run_bids d1 reqs) newId) \<and>
     (bidsOn (run_bids d1 reqs) newId = [] \<longrightarrow>
        currentBid A = startingBid A \<and> highestBidder A = None) \<and>
     (bidsOn (run_bids d1 reqs) newId \<noteq> [] \<longrightarrow>
        currentBid A = Max (amount ` set (bidsOn (run_bids d1 reqs) newId)) \<and>
        (\<forall>b \<in> set (bidsOn (run_bids d1 reqs) newId). amount b = currentBid A \<longrightarrow>
           highestBidder A = Some (bidder b)))"
  by (rule bid_inv_consistent, rule bid_inv_run_bids,
      rule bid_inv_createAuction [OF assms(2) assms(1)])

lemma trim_demo: "trim ''Lamp'' = ''Lamp''" "trim ''Brass lamp'' = ''Brass lamp''"
  by (simp_all add: trim_def isSpace_def)

lemma create_demo:
  "createAuction 500 7 emptyDb \<lparr>user_id = IdObject 1, isAdmin = False\<rparr> demoBody =
     (Inr demoAuction, demoDb)"
  by (simp add: createAuction_def Let_def emptyDb_def demoBody_def emptyBody_def falsy_def
      date_le_def trim_demo auctionValid_def demoAuction_def demoDb_def)

lemma run_demo:
  "run_bids demoDb demoBids =
     \<lparr>auctions = [7 \<mapsto> demoAuction\<lparr>currentBid := 150, highestBidder := Some 3,
                      bidCount := 2, updatedAt := 2001\<rparr>],
      bids = [\<lparr>createdAt = 2000, updatedAt = 2000, auction = 7, bidder = 2, amount = 100\<rparr>,
              \<lparr>createdAt = 2001, updatedAt = 2001, auction = 7, bidder = 3, amount = 150\<rparr>]\<rparr>"
  by (simp add: demoBids_def placeBid_def Let_def txn_defs demoBid_def demoDb_def
      sellerIs_def auction_status_def oneHour_def demoAuction_def bidUpdate_def newBid_def
      bidValid_def numeral_2_eq_2)

text \<open>
  The example auction is created in an empty store; user 2 bids 100, user 3 bids 150, and
  user 2 bids 100 again, which is rejected. The auction then shows 150, user 3 and two
  bids, and the log holds the two accepted bids.
\<close>

theorem bid_log_consistency_witness:
  "bidsOn emptyDb 7 = [] \<and>
   createAuction 500 7 emptyDb \<lparr>user_id = IdObject 1, isAdmin = False\<rparr> demoBody =
     (Inr demoAuction, demoDb) \<and>
   map_option currentBid (auctions (run_bids demoDb demoBids) 7) = Some 150 \<and>
   map_option highestBidder (auctions (run_bids demoDb demoBids) 7) = Some (Some 3) \<and>
   map_option bidCount (auctions (run_bids demoDb demoBids) 7) = Some 2 \<and>
   map amount (bidsOn (run_bids demoDb demoBids) 7) = [100, 150] \<and>
   (\<exists>A. auctions (run_bids demoDb demoBids) 7 = Some A \<and>
      bidCount A = length (bidsOn (run_bids demoDb demoBids) 7) \<and>
      (bidsOn (run_bids demoDb demoBids) 7 = [] \<longrightarrow>
         currentBid A = startingBid A \<and> highestBidder A = None) \<and>
      (bidsOn (run_bids demoDb demoBids) 7 \<noteq> [] \<longrightarrow>
         currentBid A = Max (amount ` set (bidsOn (run_bids demoDb demoBids) 7)) \<and>
         (\<forall>b \<in> set (bidsOn (run_bids demoDb demoBids) 7). amount b = currentBid A \<longrightarrow>
            highestBidder A = Some (bidder b))))"
proof -
  have h1: "bidsOn emptyDb 7 = []" by (simp add: bidsOn_def emptyDb_def)
  have shown: "map_option currentBid (auctions (run_bids demoDb demoBids) 7) = Some 150"
    "map_option highestBidder (auctions (run_bids demoDb demoBids) 7) = Some (Some 3)"
    "map_option bidCount (auctions (run_bids demoDb demoBids) 7) = Some 2"
    "map amount (bidsOn (run_bids demoDb demoBids) 7) = [100, 150]"
    by (simp_all add: run_demo bidsOn_def)
  from bid_log_consistency [OF h1 create_demo, of demoBids] h1 create_demo shown
  show ?thesis by blast
qed

section \<open>Updating an auction\<close>

lemma assignKey_skip: "key \<notin> set allowed \<Longrightarrow> assignKey allowed key v f a = a"
  by (cases v) (simp_all add: assignKey_def)

lemma assignKey_preserves:
  assumes "\<And>x y. sel (f x y) = sel y"
  shows "sel (assignKey allowed key v f a) = sel a"
  using assms by (cases v) (simp_all add: assignKey_def)

lemma applyUpdates_currentBid:
  assumes "''currentBid'' \<notin> set allowed"
  shows "currentBid (applyUpdates allowed b a) = currentBid a"
  unfolding applyUpdates_def assignKey_skip [OF assms]
  by (simp add: assignKey_preserves [where sel = currentBid])

lemma assignKey_startingBid:
  "startingBid (assignKey allowed key v (\<lambda>w x. x\<lparr>startingBid := w\<rparr>) a) =
     (case v of Some w \<Rightarrow> if key \<in> set allowed then w else startingBid a
      | None \<Rightarrow> startingBid a)"
  by (cases v) (simp_all add: assignKey_def)

lemma applyUpdates_startingBid:
  "startingBid (applyUpdates allowed b a) =
     (case body_startingBid b of
        Some v \<Rightarrow> if ''startingBid'' \<in> set allowed then v else startingBid a
      | None \<Rightarrow> startingBid a)"
  unfolding applyUpdates_def
  by (cases "body_startingBid b")
     (simp_all add: assignKey_preserves [where sel = startingBid] assignKey_startingBid)

lemma saveAuction_cases:
  assumes "saveAuction now d aid old a = (Inr a', d')"
  shows "(a' = a \<or> a' = a\<lparr>updatedAt := now\<rparr>) \<and> d' = d\<lparr>auctions := (auctions d)(aid \<mapsto> a')\<rparr>"
proof (cases "auctionValid a")
  case False
  with assms show ?thesis by (simp add: saveAuction_def)
next
  case True
  show ?thesis
  proof (cases "a = old")
    case True
    with \<open>auctionValid a\<close> assms show ?thesis by (auto simp: saveAuction_def)
  next
    case False
    with \<open>auctionValid a\<close> assms show ?thesis by (auto simp: saveAuction_def Let_def)
  qed
qed

text \<open>
  An update that succeeds has saved the document that the copy loop produced under a
  whitelist which never holds \<open>currentBid\<close> and which holds \<open>startingBid\<close> exactly
  for an admin, or for the seller of an upcoming auction without bids.
\<close>

lemma updateAuction_cases:
  assumes "updateAuction now d u (Some aid) b = (Inr a', d')" and "auctions d aid = Some a"
  shows "\<exists>allowed b1.
     saveAuction now d aid a (applyUpdates allowed b1 a) = (Inr a', d') \<and>
     body_startingBid b1 = body_startingBid b \<and>
     ''currentBid'' \<notin> set allowed \<and>
     (''startingBid'' \<in> set allowed \<longleftrightarrow>
        isAdmin u \<or> (auction_status now a = Upcoming \<and> sellerIs (seller a) (user_id u) \<and>
                      bidCount a = 0))"
proof -
  let ?cs = "auction_status now a"
  let ?b1 = "if (body_startingBid b \<noteq> None \<and> Some (startingBid a) \<noteq> body_startingBid b) \<and>
                bidCount a = 0
             then b\<lparr>body_currentBid := body_startingBid b\<rparr> else b"
  let ?times = "isAdmin u \<or> (?cs = Upcoming \<and> sellerIs (seller a) (user_id u))"
  let ?a0 = "[''title'', ''description'', ''imageUrl'', ''images'', ''category'',
              ''location'', ''documents'']"
  let ?a1 = "if ?times then ?a0 @ [''endTime'', ''startTime''] else ?a0"
  let ?al = "if isAdmin u \<or> (?cs = Upcoming \<and> sellerIs (seller a) (user_id u) \<and> bidCount a = 0)
             then ?a1 @ [''startingBid''] else ?a1"
  define saved where "saved = saveAuction now d aid a (applyUpdates ?al ?b1 a)"
  have unfolded: "updateAuction now d u (Some aid) b =
     (if \<not> sellerIs (seller a) (user_id u) \<and> \<not> isAdmin u
      then (Inl (Rejection 403 NotAuthorizedToUpdate), d)
      else if ?cs = Ended \<and> \<not> isAdmin u
      then (Inl (Rejection 400 CannotUpdateEnded), d)
      else if (body_startingBid b \<noteq> None \<and> Some (startingBid a) \<noteq> body_startingBid b) \<and>
              (?cs = Active \<or> ?cs = Ended \<or> bidCount a > 0) \<and> \<not> isAdmin u
      then (Inl (Rejection 400 CannotChangeStartingBid), d)
      else if ?times \<and>
              date_le (case body_endTime ?b1 of Some t \<Rightarrow> t | None \<Rightarrow> endTime a)
                      (case body_startTime ?b1 of Some t \<Rightarrow> t | None \<Rightarrow> startTime a)
      then (Inl (Rejection 400 EndNotAfterStart), d)
      else saved)"
    unfolding saved_def updateAuction_def Let_def using assms(2) by simp
  have "saved = (Inr a', d')"
    using assms(1) unfolding unfolded by (simp split: if_split_asm)
  then have "saveAuction now d aid a (applyUpdates ?al ?b1 a) = (Inr a', d')"
    by (simp only: saved_def)
  moreover have "body_startingBid ?b1 = body_startingBid b" by simp
  moreover have "''currentBid'' \<notin> set ?al" by simp
  moreover have "''startingBid'' \<in> set ?al \<longleftrightarrow>
        isAdmin u \<or> (?cs = Upcoming \<and> sellerIs (seller a) (user_id u) \<and> bidCount a = 0)"
    by simp
  ultimately show ?thesis by blast
qed

text \<open>No update changes the current bid, whoever asks and whatever the request holds.\<close>

lemma updateAuction_keeps_currentBid:
  assumes "updateAuction now d u (Some aid) b = (Inr a', d')" and "auctions d aid = Some a"
  shows "currentBid a' = currentBid a"
proof -
  from updateAuction_cases [OF assms] obtain allowed b1 where
    sv: "saveAuction now d aid a (applyUpdates allowed b1 a) = (Inr a', d')"
    and nc: "''currentBid'' \<notin> set allowed" by blast
  from saveAuction_cases [OF sv] have "currentBid a' = currentBid (applyUpdates allowed b1 a)"
    by auto
  with nc show ?thesis by (simp add: applyUpdates_currentBid)
qed

text \<open>
  For an actor who is not an admin, the starting bid changes only on an upcoming auction
  without bids.
\<close>

lemma updateAuction_startingBid_gate:
  assumes "updateAuction now d u (Some aid) b = (Inr a', d')" and "auctions d aid = Some a"
    and "startingBid a' \<noteq> startingBid a" and "\<not> isAdmin u"
  shows "bidCount a = 0 \<and> auction_status now a = Upcoming"
proof -
  from updateAuction_cases [OF assms(1,2)] obtain allowed b1 where
    sv: "saveAuction now d aid a (applyUpdates allowed b1 a) = (Inr a', d')"
    and al: "''startingBid'' \<in> set allowed \<longleftrightarrow>
        isAdmin u \<or> (auction_status now a = Upcoming \<and> sellerIs (seller a) (user_id u) \<and>
                      bidCount a = 0)" by blast
  from saveAuction_cases [OF sv] have "startingBid a' = startingBid (applyUpdates allowed b1 a)"
    by auto
  with assms(3) have "''startingBid'' \<in> set allowed"
    by (auto simp: applyUpdates_startingBid split: option.splits if_splits)
  with al assms(4) show ?thesis by simp
qed

text \<open>
  Claim C7, at a request the code answers otherwise. User 3, an admin, raises the starting
  bid of the example auction, which has no bids, from 50 to 100. The update succeeds and
  stores the starting bid 100, and the current bid is still 50: the controller writes the
  new starting bid into \<open>req.body.currentBid\<close>, and the copy loop drops it, since
  the whitelist has no \<open>currentBid\<close>.
\<close>

theorem updateAuction_startingBid_leaves_currentBid:
  "protect demoUsers (Token 3) = Inr \<lparr>user_id = IdObject 3, isAdmin = True\<rparr> \<and>
   fst (updateAuction 500 demoDb \<lparr>user_id = IdObject 3, isAdmin = True\<rparr> (Some 7)
          (emptyBody\<lparr>body_startingBid := Some 100\<rparr>)) =
     Inr (demoAuction\<lparr>startingBid := 100, updatedAt := 500\<rparr>) \<and>
   bidCount demoAuction = 0 \<and>
   currentBid (demoAuction\<lparr>startingBid := 100, updatedAt := 500\<rparr>) = 50"
proof -
  let ?u = "\<lparr>user_id = IdObject 3, isAdmin = True\<rparr>"
  let ?b = "emptyBody\<lparr>body_startingBid := Some 100\<rparr>"
  have applied: "applyUpdates [''title'', ''description'', ''imageUrl'', ''images'',
        ''category'', ''location'', ''documents'', ''endTime'', ''startTime'', ''startingBid'']
        (?b\<lparr>body_currentBid := Some 100\<rparr>) demoAuction = demoAuction\<lparr>startingBid := 100\<rparr>"
    by (simp add: applyUpdates_def assignKey_def emptyBody_def)
  have valid: "auctionValid (demoAuction\<lparr>startingBid := 100\<rparr>)"
    by (simp add: auctionValid_def demoAuction_def falsy_def)
  have changed: "demoAuction\<lparr>startingBid := 100\<rparr> \<noteq> demoAuction"
    by (simp add: demoAuction_def)
  have "updateAuction 500 demoDb ?u (Some 7) ?b =
          saveAuction 500 demoDb 7 demoAuction (demoAuction\<lparr>startingBid := 100\<rparr>)"
    unfolding updateAuction_def Let_def
    using demo_found applied
    by (simp add: date_le_def emptyBody_def demoAuction_def)
  then show ?thesis
    using valid changed demo_protect(2) by (simp add: saveAuction_def Let_def demoAuction_def)
qed

section \<open>Deleting an auction\<close>

text \<open>
  The two gates of \<open>deleteAuction\<close>. Without admin rights, an active or ended auction
  with a bid is never deleted and the store stays as it was. An upcoming auction without
  bids is deleted for whoever passes the authorization check, that is, for an admin and
  for a user id that is strictly equal to the string form of the seller's id.
\<close>

lemma deleteAuction_gating:
  assumes "auctions d aid = Some a"
  shows
   "(\<not> isAdmin u \<and> (auction_status now a = Active \<or> auction_status now a = Ended) \<and>
     bidCount a > 0 \<longrightarrow>
       (\<exists>code r. fst (deleteAuction now d u (Some aid)) = Inl (Rejection code r)) \<and>
       snd (deleteAuction now d u (Some aid)) = d) \<and>
    (bidCount a = 0 \<and> auction_status now a = Upcoming \<and>
     (sellerIs (seller a) (user_id u) \<or> isAdmin u) \<longrightarrow>
       deleteAuction now d u (Some aid) = (Inr (), d\<lparr>auctions := (auctions d)(aid := None)\<rparr>))"
  using assms
  by (simp add: deleteAuction_def Let_def)

text \<open>
  Behind \<open>protect\<close>, a user without admin rights is refused every deletion and every
  update of an existing auction with 403, the seller included.
\<close>

lemma deleteAuction_after_protect:
  assumes "protect users cred = Inr u" and "\<not> isAdmin u" and "auctions d aid = Some a"
  shows "deleteAuction now d u (Some aid) = (Inl (Rejection 403 NotAuthorizedToDelete), d)"
  using protect_never_sellerIs [OF assms(1), of "seller a"] assms(2,3)
  by (simp add: deleteAuction_def)

lemma updateAuction_after_protect:
  assumes "protect users cred = Inr u" and "\<not> isAdmin u" and "auctions d aid = Some a"
  shows "updateAuction now d u (Some aid) b = (Inl (Rejection 403 NotAuthorizedToUpdate), d)"
  using protect_never_sellerIs [OF assms(1), of "seller a"] assms(2,3)
  by (simp add: updateAuction_def)

text \<open>
  Claim C8, at a request the code answers otherwise. User 1, who listed the example
  auction and is no admin, asks at instant 500 to delete it; it is upcoming and has no
  bids. The middleware hands the controller the user's id as an ObjectId, the controller
  compares the seller's id string with it by strict equality, and the request is refused
  with 403; the auction stays in the store.
\<close>

theorem deleteAuction_refuses_seller:
  "protect demoUsers (Token 1) = Inr \<lparr>user_id = IdObject 1, isAdmin = False\<rparr> \<and>
   seller demoAuction = 1 \<and> bidCount demoAuction = 0 \<and>
   auction_status 500 demoAuction = Upcoming \<and>
   deleteAuction 500 demoDb \<lparr>user_id = IdObject 1, isAdmin = False\<rparr> (Some 7) =
     (Inl (Rejection 403 NotAuthorizedToDelete), demoDb)"
  using demo_protect(1)
  by (simp add: deleteAuction_def demo_found demo_fields demo_status sellerIs_def)

section \<open>Liking an auction\<close>

lemma toggleLike_result:
  assumes "auctions d aid = Some a"
  shows "snd (toggleLikeAuction now d u (Some aid)) =
     d\<lparr>auctions := (auctions d)(aid \<mapsto>
        a\<lparr>likedBy := (if id_of (user_id u) \<in> set (likedBy a)
                        then pull (id_of (user_id u)) (likedBy a)
                        else addToSet (id_of (user_id u)) (likedBy a)),
          updatedAt := now\<rparr>)\<rparr>"
  using assms by (simp add: toggleLikeAuction_def Let_def list_ex_iff)

lemma set_pull: "set (pull x xs) = set xs - {x}"
  by (auto simp: pull_def)

lemma set_addToSet: "set (addToSet x xs) = insert x (set xs)"
  by (auto simp: addToSet_def)

text \<open>
  Claim C9. On an existing auction one toggle flips the caller's membership in
  \<open>likedBy\<close> and leaves every other user's membership as it was, and a second toggle
  by the same caller restores the original set.
\<close>

theorem toggleLike_flips_membership:
  assumes "auctions d aid = Some a"
  shows "\<exists>a1 a2.
     auctions (snd (toggleLikeAuction now1 d u (Some aid))) aid = Some a1 \<and>
     (id_of (user_id u) \<in> set (likedBy a1) \<longleftrightarrow> id_of (user_id u) \<notin> set (likedBy a)) \<and>
     (\<forall>v. v \<noteq> id_of (user_id u) \<longrightarrow> (v \<in> set (likedBy a1) \<longleftrightarrow> v \<in> set (likedBy a))) \<and>
     auctions (snd (toggleLikeAuction now2 (snd (toggleLikeAuction now1 d u (Some aid))) u
                 (Some aid))) aid = Some a2 \<and>
     set (likedBy a2) = set (likedBy a)"
proof -
  let ?uid = "id_of (user_id u)"
  let ?d1 = "snd (toggleLikeAuction now1 d u (Some aid))"
  define a1 where "a1 = a\<lparr>likedBy := (if ?uid \<in> set (likedBy a) then pull ?uid (likedBy a)
                           else addToSet ?uid (likedBy a)), updatedAt := now1\<rparr>"
  define a2 where "a2 = a1\<lparr>likedBy := (if ?uid \<in> set (likedBy a1) then pull ?uid (likedBy a1)
                           else addToSet ?uid (likedBy a1)), updatedAt := now2\<rparr>"
  have d1: "auctions ?d1 aid = Some a1"
    using toggleLike_result [OF assms, of now1 u] by (simp add: a1_def)
  have d2: "auctions (snd (toggleLikeAuction now2 ?d1 u (Some aid))) aid = Some a2"
    using toggleLike_result [OF d1, of now2 u] by (simp add: a2_def)
  have s1: "set (likedBy a1) =
      (if ?uid \<in> set (likedBy a) then set (likedBy a) - {?uid} else insert ?uid (set (likedBy a)))"
    by (simp add: a1_def set_pull set_addToSet)
  have s2: "set (likedBy a2) =
      (if ?uid \<in> set (likedBy a1) then set (likedBy a1) - {?uid} else insert ?uid (set (likedBy a1)))"
    by (simp add: a2_def set_pull set_addToSet)
  have flipped: "?uid \<in> set (likedBy a1) \<longleftrightarrow> ?uid \<notin> set (likedBy a)"
    using s1 by auto
  have others: "\<forall>v. v \<noteq> ?uid \<longrightarrow> (v \<in> set (likedBy a1) \<longleftrightarrow> v \<in> set (likedBy a))"
    using s1 by auto
  have restored: "set (likedBy a2) = set (likedBy a)"
    using s1 s2 by auto
  from d1 d2 flipped others restored show ?thesis by blast
qed

text \<open>
  User 2 likes the example auction, which nobody liked, and then toggles again: the list
  of likers is first user 2 alone and then empty as before.
\<close>

theorem toggleLike_flips_membership_witness:
  "auctions demoDb 7 = Some demoAuction \<and>
   map_option likedBy
     (auctions (snd (toggleLikeAuction 2000 demoDb \<lparr>user_id = IdObject 2, isAdmin = False\<rparr>
                       (Some 7))) 7) = Some [2] \<and>
   (\<exists>a1 a2.
      auctions (snd (toggleLikeAuction 2000 demoDb \<lparr>user_id = IdObject 2, isAdmin = False\<rparr>
                       (Some 7))) 7 = Some a1 \<and>
      (id_of (user_id \<lparr>user_id = IdObject 2, isAdmin = False\<rparr>) \<in> set (likedBy a1) \<longleftrightarrow>
       id_of (user_id \<lparr>user_id = IdObject 2, isAdmin = False\<rparr>) \<notin> set (likedBy demoAuction)) \<and>
      (\<forall>v. v \<noteq> id_of (user_id \<lparr>user_id = IdObject 2, isAdmin = False\<rparr>) \<longrightarrow>
         (v \<in> set (likedBy a1) \<longleftrightarrow> v \<in> set (likedBy demoAuction))) \<and>
      auctions (snd (toggleLikeAuction 2001
                  (snd (toggleLikeAuction 2000 demoDb \<lparr>user_id = IdObject 2, isAdmin = False\<rparr>
                          (Some 7)))
                  \<lparr>user_id = IdObject 2, isAdmin = False\<rparr> (Some 7))) 7 = Some a2 \<and>
      set (likedBy a2) = set (likedBy demoAuction))"
proof -
  have once: "map_option likedBy
     (auctions (snd (toggleLikeAuction 2000 demoDb \<lparr>user_id = IdObject 2, isAdmin = False\<rparr>
                       (Some 7))) 7) = Some [2]"
    by (simp add: toggleLike_result [OF demo_found] demo_fields addToSet_def)
  from toggleLike_flips_membership
         [OF demo_found, of 2000 "\<lparr>user_id = IdObject 2, isAdmin = False\<rparr>" 2001]
       demo_found once
  show ?thesis by blast
qed

end
